theory Spec2Isabelle
  imports Main "HOL-Library.Word" "HOL-Library.Sublist"
begin

section \<open>JavaScript strings\<close>

text \<open>
  A JavaScript string is a finite sequence of UTF-16 code units. String literals of the
  source are ASCII; \<open>js\<close> embeds such a literal code unit by code unit.
\<close>

type_synonym jschar = "16 word"
type_synonym jsstring = "jschar list"

definition js :: "string \<Rightarrow> jsstring" where
  "js s = map (\<lambda>c. word_of_nat (of_char c)) s"

abbreviation TAB :: jschar where "TAB \<equiv> 0x09"
abbreviation NL :: jschar where "NL \<equiv> 0x0A"

text \<open>
  The code units removed by \<^verbatim>\<open>String.prototype.trim\<close> and matched by \<^verbatim>\<open>\s\<close> in a
  regular expression: ECMAScript's WhiteSpace and LineTerminator productions.
\<close>

definition isWhiteSpace :: "jschar \<Rightarrow> bool" where
  "isWhiteSpace c \<longleftrightarrow>
     c = 0x09 \<or> c = 0x0A \<or> c = 0x0B \<or> c = 0x0C \<or> c = 0x0D \<or> c = 0x20 \<or> c = 0xA0 \<or>
     c = 0x1680 \<or> (0x2000 \<le> c \<and> c \<le> 0x200A) \<or> c = 0x2028 \<or> c = 0x2029 \<or>
     c = 0x202F \<or> c = 0x205F \<or> c = 0x3000 \<or> c = 0xFEFF"

text \<open>\<^verbatim>\<open>s.trim()\<close>\<close>

definition trim :: "jsstring \<Rightarrow> jsstring" where
  "trim s = rev (dropWhile isWhiteSpace (rev (dropWhile isWhiteSpace s)))"

text \<open>
  \<^verbatim>\<open>s.split(sep)\<close> for a separator of one code unit: the empty string splits into one
  empty field, and \<open>n\<close> separators give \<open>n + 1\<close> fields.
\<close>

fun split :: "jschar \<Rightarrow> jsstring \<Rightarrow> jsstring list" where
  "split sep [] = [[]]"
| "split sep (c # cs) =
     (if c = sep then [] # split sep cs
      else (c # hd (split sep cs)) # tl (split sep cs))"

text \<open>\<^verbatim>\<open>parts.join(sep)\<close> for a separator of one code unit.\<close>

fun join :: "jschar \<Rightarrow> jsstring list \<Rightarrow> jsstring" where
  "join sep [] = []"
| "join sep [p] = p"
| "join sep (p # q # ps) = p @ sep # join sep (q # ps)"

section \<open>Data model\<close>

record GitConflictDetectorConfig =
  owner :: jsstring
  repo :: jsstring
  accessToken :: jsstring
  localRepoPath :: jsstring
  branchA :: jsstring
  branchB :: jsstring

record ConflictDetectionResult =
  potentialConflicts :: "jsstring list"
  mergeBaseCommit :: jsstring
  error :: "jsstring option"

record FileChange =
  filename :: jsstring
  status :: jsstring

section \<open>The conflict intersector\<close>

text \<open>
  \<^verbatim>\<open>findCommonChanges\<close>: a \<^verbatim>\<open>Set\<close> of the local filenames, then \<^verbatim>\<open>filter\<close> and \<^verbatim>\<open>map\<close>
  over the remote changes.
\<close>

definition findCommonChanges :: "FileChange list \<Rightarrow> FileChange list \<Rightarrow> jsstring list" where
  "findCommonChanges localChanges remoteChanges =
     (let localFiles = set (map filename localChanges)
      in map filename (filter (\<lambda>change. filename change \<in> localFiles) remoteChanges))"

text \<open>
  The intersection as the specification words it: walk the remote list in its order and
  keep the path of every entry whose path occurs among the local paths, every time it
  occurs.
\<close>

fun common_paths :: "jsstring list \<Rightarrow> FileChange list \<Rightarrow> jsstring list" where
  "common_paths localPaths [] = []"
| "common_paths localPaths (r # rs) =
     (if filename r \<in> set localPaths
      then filename r # common_paths localPaths rs
      else common_paths localPaths rs)"

definition change :: "string \<Rightarrow> string \<Rightarrow> FileChange" where
  "change f s = \<lparr>filename = js f, status = js s\<rparr>"

section \<open>External collaborators\<close>

text \<open>
  What a \<^verbatim>\<open>catch\<close> clause of the source can tell about a thrown value: an instance of
  \<^verbatim>\<open>Error\<close>, of which the source reads the \<^verbatim>\<open>message\<close>, or any other value, of which
  the source takes \<^verbatim>\<open>String(value)\<close>. The conversion gives a string (\<open>Value\<close>), or it
  throws in its turn (\<open>NoString\<close>, with the value it throws): so does an object without
  a \<^verbatim>\<open>toString\<close>, such as \<^verbatim>\<open>Object.create(null)\<close>, with a \<^verbatim>\<open>TypeError\<close>.
\<close>

datatype thrown = Error jsstring | Value jsstring | NoString thrown

text \<open>The thrown values that the source can turn into a message.\<close>

fun printable :: "thrown \<Rightarrow> bool" where
  "printable (Error message) = True"
| "printable (Value v) = True"
| "printable (NoString e) = False"

text \<open>
  What \<^verbatim>\<open>axios.get\<close> rejects with: an object with a truthy \<^verbatim>\<open>isAxiosError\<close>, given by
  \<^verbatim>\<open>response?.status\<close>, \<^verbatim>\<open>response?.data?.message\<close> and \<^verbatim>\<open>message\<close>, each of which may be
  absent; or any other thrown value.
\<close>

datatype rejection =
    AxiosError "nat option" "jsstring option" "jsstring option"
  | Rejected thrown

text \<open>
  The body of a successful comparison response, \<^verbatim>\<open>response.data\<close>, of which the source
  reads \<^verbatim>\<open>files\<close> only, and of each file its \<^verbatim>\<open>filename\<close> and \<^verbatim>\<open>status\<close>.
\<close>

record ResponseData =
  files :: "FileChange list option"

type_synonym headers = "(jsstring \<times> jsstring) list"

text \<open>
  The command runner (\<^verbatim>\<open>execSync(command, {cwd, encoding: 'utf-8'})\<close>), the filesystem
  (\<^verbatim>\<open>fs.existsSync(path)\<close>) and the remote service (\<^verbatim>\<open>axios.get(url, {headers})\<close>): each
  answers a call with a value or throws.
\<close>

record World =
  execSync :: "jsstring \<Rightarrow> jsstring \<Rightarrow> thrown + jsstring"
  existsSync :: "jsstring \<Rightarrow> thrown + bool"
  axios_get :: "jsstring \<Rightarrow> headers \<Rightarrow> rejection + ResponseData"

text \<open>The calls made to the collaborators, in the order they are made.\<close>

datatype event =
    ExecSync jsstring jsstring
  | ExistsSync jsstring
  | AxiosGet jsstring headers

text \<open>
  A computation of the source: the calls it made, and either the value thrown (\<open>Inl\<close>) or
  the value returned (\<open>Inr\<close>).
\<close>

type_synonym 'a eff = "event list \<times> (thrown + 'a)"

definition return :: "'a \<Rightarrow> 'a eff" where
  "return x = ([], Inr x)"

definition throw :: "thrown \<Rightarrow> 'a eff" where
  "throw e = ([], Inl e)"

definition bind :: "'a eff \<Rightarrow> ('a \<Rightarrow> 'b eff) \<Rightarrow> 'b eff" where
  "bind m f =
     (case m of
        (t, Inl e) \<Rightarrow> (t, Inl e)
      | (t, Inr x) \<Rightarrow> (case f x of (t', r) \<Rightarrow> (t @ t', r)))"

definition try_catch :: "'a eff \<Rightarrow> (thrown \<Rightarrow> 'a eff) \<Rightarrow> 'a eff" where
  "try_catch m h =
     (case m of
        (t, Inl e) \<Rightarrow> (case h e of (t', r) \<Rightarrow> (t @ t', r))
      | (t, Inr x) \<Rightarrow> (t, Inr x))"

text \<open>Truthiness of a \<^verbatim>\<open>string | null\<close>.\<close>

definition truthy :: "jsstring option \<Rightarrow> bool" where
  "truthy v = (case v of None \<Rightarrow> False | Some s \<Rightarrow> s \<noteq> [])"

text \<open>A non-negative integer in a template literal: its decimal digits.\<close>

fun decimal :: "nat \<Rightarrow> jsstring" where
  "decimal n =
     (if n < 10 then [word_of_nat (48 + n)]
      else decimal (n div 10) @ [word_of_nat (48 + n mod 10)])"

declare decimal.simps [simp del]

section \<open>The detector\<close>

text \<open>
  \<^verbatim>\<open>execGitCommand\<close>. With the encoding given, \<^verbatim>\<open>execSync\<close> returns a string, which is
  returned as it is.
\<close>

definition execGitCommand :: "World \<Rightarrow> GitConflictDetectorConfig \<Rightarrow> jsstring \<Rightarrow> jsstring eff" where
  "execGitCommand w config command =
     try_catch
       ([ExecSync (js ''git '' @ command) (localRepoPath config)],
        execSync w (js ''git '' @ command) (localRepoPath config))
       (\<lambda>err. case err of
          Error message \<Rightarrow>
            throw (Error (js ''Git command failed: git '' @ command @ js '' - '' @ message))
        | _ \<Rightarrow> throw err)"

text \<open>\<^verbatim>\<open>validateConfig\<close>\<close>

definition validateConfig :: "World \<Rightarrow> GitConflictDetectorConfig \<Rightarrow> jsstring option eff" where
  "validateConfig w config =
     (if owner config = [] then return (Some (js ''Owner is required''))
      else if repo config = [] then return (Some (js ''Repository name is required''))
      else if accessToken config = [] then return (Some (js ''Access token is required''))
      else if localRepoPath config = [] then
        return (Some (js ''Local repository path is required''))
      else if branchA config = [] then return (Some (js ''Branch A name is required''))
      else if branchB config = [] then return (Some (js ''Branch B name is required''))
      else
        bind ([ExistsSync (localRepoPath config)], existsSync w (localRepoPath config))
          (\<lambda>ex.
             if \<not> ex then
               return (Some (js ''Local repository path does not exist: '' @ localRepoPath config))
             else return None))"

text \<open>\<^verbatim>\<open>branch.replace(/^\*\s*/, '')\<close>\<close>

definition strip_marker :: "jsstring \<Rightarrow> jsstring" where
  "strip_marker branch =
     (case branch of
        [] \<Rightarrow> []
      | c # cs \<Rightarrow> if c = 0x2A then dropWhile isWhiteSpace cs else c # cs)"

text \<open>
  The branch names that \<^verbatim>\<open>validateLocalRepository\<close> reads from the output of
  \<^verbatim>\<open>git branch --list\<close>:
  \<^verbatim>\<open>output.split('\n').map(branch => branch.trim().replace(/^\*\s*/, '')).filter(Boolean)\<close>.
\<close>

definition branch_names :: "jsstring \<Rightarrow> jsstring list" where
  "branch_names output =
     filter (\<lambda>branch. branch \<noteq> [])
       (map (\<lambda>branch. strip_marker (trim branch)) (split NL output))"

text \<open>\<^verbatim>\<open>validateLocalRepository\<close>\<close>

definition validateLocalRepository ::
  "World \<Rightarrow> GitConflictDetectorConfig \<Rightarrow> jsstring option eff" where
  "validateLocalRepository w config =
     try_catch
       (bind (execGitCommand w config (js ''rev-parse --is-inside-work-tree'')) (\<lambda>_.
        bind (execGitCommand w config (js ''branch --list'')) (\<lambda>output.
          let branches = branch_names output
          in if branchB config \<notin> set branches then
               return (Some (js ''Branch '' @ [0x27] @ branchB config @ [0x27]
                               @ js '' does not exist locally''))
             else return None)))
       (\<lambda>err. case err of
          Error message \<Rightarrow>
            return (Some (js ''Invalid git repository at '' @ localRepoPath config
                            @ js '': '' @ message))
        | Value v \<Rightarrow> return (Some v)
        | NoString e \<Rightarrow> throw e)"

text \<open>\<^verbatim>\<open>findMergeBaseCommit\<close>\<close>

definition findMergeBaseCommit :: "World \<Rightarrow> GitConflictDetectorConfig \<Rightarrow> jsstring eff" where
  "findMergeBaseCommit w config =
     try_catch
       (let remoteRef = js ''origin/'' @ branchA config
        in bind (execGitCommand w config
                   (js ''merge-base '' @ remoteRef @ js '' '' @ branchB config))
             (\<lambda>output.
                let mergeBase = trim output
                in if mergeBase = [] then
                     throw (Error (js ''Could not find merge base between '' @ remoteRef
                                     @ js '' and '' @ branchB config))
                   else return mergeBase))
       (\<lambda>err. case err of
          Error message \<Rightarrow> throw (Error (js ''Failed to find merge base: '' @ message))
        | _ \<Rightarrow> throw err)"

text \<open>\<^verbatim>\<open>parseGitDiffOutput\<close>\<close>

definition parseGitDiffOutput :: "jsstring \<Rightarrow> FileChange list" where
  "parseGitDiffOutput output =
     (if trim output = [] then []
      else map (\<lambda>line.
                  let fields = split TAB (trim line);
                      filenameParts = tl fields
                  in \<lparr>filename = join TAB filenameParts, status = hd fields\<rparr>)
             (filter (\<lambda>line. line \<noteq> []) (split NL (trim output))))"

text \<open>\<^verbatim>\<open>getLocalChanges\<close>\<close>

definition getLocalChanges ::
  "World \<Rightarrow> GitConflictDetectorConfig \<Rightarrow> jsstring \<Rightarrow> FileChange list eff" where
  "getLocalChanges w config mergeBase =
     try_catch
       (bind (execGitCommand w config
                (js ''diff --name-status '' @ mergeBase @ js '' '' @ branchB config))
          (\<lambda>output. return (parseGitDiffOutput output)))
       (\<lambda>err. case err of
          Error message \<Rightarrow> throw (Error (js ''Failed to get local changes: '' @ message))
        | _ \<Rightarrow> throw err)"

text \<open>\<^verbatim>\<open>getRemoteChanges\<close>\<close>

definition compare_url :: "GitConflictDetectorConfig \<Rightarrow> jsstring \<Rightarrow> jsstring" where
  "compare_url config mergeBase =
     js ''https://api.github.com/repos/'' @ owner config @ js ''/'' @ repo config
       @ js ''/compare/'' @ mergeBase @ js ''...'' @ branchA config"

definition request_headers :: "GitConflictDetectorConfig \<Rightarrow> headers" where
  "request_headers config =
     [(js ''Authorization'', js ''Bearer '' @ accessToken config),
      (js ''Accept'', js ''application/vnd.github.v3+json'')]"

definition getRemoteChanges ::
  "World \<Rightarrow> GitConflictDetectorConfig \<Rightarrow> jsstring \<Rightarrow> FileChange list eff" where
  "getRemoteChanges w config mergeBase =
     (let url = compare_url config mergeBase
      in ([AxiosGet url (request_headers config)],
          case axios_get w url (request_headers config) of
            Inr response \<Rightarrow>
              Inr (map (\<lambda>file. \<lparr>filename = filename file, status = status file\<rparr>)
                     (case files response of Some fs \<Rightarrow> fs | None \<Rightarrow> []))
          | Inl (AxiosError statusCode dataMessage errorMessage) \<Rightarrow>
              Inl (Error (js ''GitHub API error (''
                    @ (case statusCode of Some n \<Rightarrow> decimal n | None \<Rightarrow> js ''undefined'')
                    @ js ''): ''
                    @ (case (if truthy dataMessage then dataMessage else errorMessage) of
                         Some m \<Rightarrow> m
                       | None \<Rightarrow> js ''undefined'')))
          | Inl (Rejected (Error message)) \<Rightarrow>
              Inl (Error (js ''Failed to get remote changes: '' @ message))
          | Inl (Rejected (Value v)) \<Rightarrow>
              Inl (Error (js ''Failed to get remote changes: '' @ v))
          | Inl (Rejected (NoString e)) \<Rightarrow> Inl e))"

text \<open>The \<^verbatim>\<open>try\<close> block of \<^verbatim>\<open>findPotentialConflicts\<close>.\<close>

definition findPotentialConflicts_try ::
  "World \<Rightarrow> GitConflictDetectorConfig \<Rightarrow> ConflictDetectionResult eff" where
  "findPotentialConflicts_try w config =
       (bind (validateConfig w config) (\<lambda>configError.
          if truthy configError then
            return \<lparr>potentialConflicts = [], mergeBaseCommit = [], error = configError\<rparr>
          else
            bind (validateLocalRepository w config) (\<lambda>repoError.
              if truthy repoError then
                return \<lparr>potentialConflicts = [], mergeBaseCommit = [], error = repoError\<rparr>
              else
                bind (findMergeBaseCommit w config) (\<lambda>mergeBase.
                bind (getLocalChanges w config mergeBase) (\<lambda>localChanges.
                bind (getRemoteChanges w config mergeBase) (\<lambda>remoteChanges.
                  return \<lparr>potentialConflicts = findCommonChanges localChanges remoteChanges,
                          mergeBaseCommit = mergeBase,
                          error = None\<rparr>))))))"

text \<open>
  \<^verbatim>\<open>findPotentialConflicts\<close>. The promise it returns is resolved with a result (\<open>Inr\<close>) or
  rejected (\<open>Inl\<close>): the \<^verbatim>\<open>catch\<close> clause evaluates
  \<^verbatim>\<open>error instanceof Error ? error.message : String(error)\<close>, and what the conversion
  throws leaves the function.
\<close>

definition findPotentialConflicts ::
  "World \<Rightarrow> GitConflictDetectorConfig \<Rightarrow> ConflictDetectionResult eff" where
  "findPotentialConflicts w config =
     try_catch (findPotentialConflicts_try w config)
       (\<lambda>err. case err of
          Error message \<Rightarrow>
            return \<lparr>potentialConflicts = [], mergeBaseCommit = [], error = Some message\<rparr>
        | Value v \<Rightarrow>
            return \<lparr>potentialConflicts = [], mergeBaseCommit = [], error = Some v\<rparr>
        | NoString e \<Rightarrow> throw e)"

section \<open>The parsing rule of the specification\<close>

text \<open>
  The rule for the diff output as the specification words it: split the output into
  lines, drop the blank ones, trim each remaining line, split it on the tab, take the
  first field as the kind and rejoin the other fields with tabs as the path. A blank line
  is a line of whitespace only, the empty line among them.
\<close>

definition blank :: "jsstring \<Rightarrow> bool" where
  "blank line = list_all isWhiteSpace line"

definition parse_line :: "jsstring \<Rightarrow> FileChange" where
  "parse_line line =
     (let fields = split TAB (trim line)
      in \<lparr>filename = join TAB (tl fields), status = hd fields\<rparr>)"

definition parse_spec :: "jsstring \<Rightarrow> FileChange list" where
  "parse_spec output = map parse_line (filter (\<lambda>line. \<not> blank line) (split NL output))"

text \<open>
  Once the whitespace around the whole output is removed, no line between the entries is
  made of whitespace only, unless it is empty.
\<close>

definition no_inner_whitespace_line :: "jsstring \<Rightarrow> bool" where
  "no_inner_whitespace_line output =
     list_all (\<lambda>line. line = [] \<or> \<not> blank line) (split NL (trim output))"

text \<open>Diff outputs used as examples; \<open>tabs_line\<close> is the line of the repository's test.\<close>

definition tabs_line :: jsstring where
  "tabs_line = js ''M'' @ [TAB] @ js ''src/file'' @ [TAB] @ js ''with'' @ [TAB] @ js ''tabs.js''"

definition inner_space_diff :: jsstring where
  "inner_space_diff =
     js ''M'' @ [TAB] @ js ''a'' @ [NL] @ js '' '' @ [NL] @ js ''A'' @ [TAB] @ js ''b''"

definition leading_space_diff :: jsstring where
  "leading_space_diff = js '' '' @ [NL] @ js ''M'' @ [TAB] @ js ''a'' @ [0x0D, NL, 0x0D, NL]"

section \<open>The validation order of the specification\<close>

text \<open>
  The required fields in the order the specification checks them, each with its fixed
  message, and the message of the first one that is empty.
\<close>

definition required_fields :: "GitConflictDetectorConfig \<Rightarrow> (jsstring \<times> jsstring) list" where
  "required_fields config =
     [(owner config, js ''Owner is required''),
      (repo config, js ''Repository name is required''),
      (accessToken config, js ''Access token is required''),
      (localRepoPath config, js ''Local repository path is required''),
      (branchA config, js ''Branch A name is required''),
      (branchB config, js ''Branch B name is required'')]"

fun first_missing :: "(jsstring \<times> jsstring) list \<Rightarrow> jsstring option" where
  "first_missing [] = None"
| "first_missing ((v, message) # rest) =
     (if v = [] then Some message else first_missing rest)"

section \<open>The branch list of the specification\<close>

text \<open>
  The local branch names as the specification words it: line by line, trim the line,
  strip a leading checked-out marker with the whitespace after it, and discard the line
  if nothing is left.
\<close>

fun listed_branches :: "jsstring list \<Rightarrow> jsstring list" where
  "listed_branches [] = []"
| "listed_branches (line # rest) =
     (case trim line of
        [] \<Rightarrow> listed_branches rest
      | c # cs \<Rightarrow>
          (if c = 0x2A then
             (if dropWhile isWhiteSpace cs = [] then listed_branches rest
              else dropWhile isWhiteSpace cs # listed_branches rest)
           else (c # cs) # listed_branches rest))"

section \<open>The calls of the collectors\<close>

text \<open>
  The local collector runs one command, \<^verbatim>\<open>git diff --name-status <merge-base> <branchB>\<close>,
  and the remote collector makes one request, to the comparison endpoint for
  \<^verbatim>\<open><merge-base>...<branchA>\<close>; \<open>collector_calls\<close> selects, from the calls of a run, the
  \<^verbatim>\<open>git diff\<close> commands and the requests.
\<close>

definition local_call :: "GitConflictDetectorConfig \<Rightarrow> jsstring \<Rightarrow> event" where
  "local_call config mergeBase =
     ExecSync (js ''git diff --name-status '' @ mergeBase @ js '' '' @ branchB config)
       (localRepoPath config)"

definition remote_call :: "GitConflictDetectorConfig \<Rightarrow> jsstring \<Rightarrow> event" where
  "remote_call config mergeBase =
     AxiosGet (compare_url config mergeBase) (request_headers config)"

fun is_collector_call :: "event \<Rightarrow> bool" where
  "is_collector_call (ExecSync command cwd) = prefix (js ''git diff '') command"
| "is_collector_call (ExistsSync path) = False"
| "is_collector_call (AxiosGet url hs) = True"

definition collector_calls :: "event list \<Rightarrow> event list" where
  "collector_calls t = filter is_collector_call t"

text \<open>The merge-base command of \<^verbatim>\<open>findMergeBaseCommit\<close>.\<close>

definition merge_base_command :: "GitConflictDetectorConfig \<Rightarrow> jsstring" where
  "merge_base_command config =
     js ''git merge-base origin/'' @ branchA config @ js '' '' @ branchB config"

section \<open>The fixtures of the test suite\<close>

text \<open>
  The configuration and the mocks of the repository's tests: a command runner that
  answers each of the four commands, recognised by its first words, a filesystem in which
  every path exists, and a remote service with a fixed answer.
\<close>

definition defaultConfig :: GitConflictDetectorConfig where
  "defaultConfig =
     \<lparr>owner = js ''test-owner'', repo = js ''test-repo'', accessToken = js ''test-token'',
      localRepoPath = js ''/path/to/repo'', branchA = js ''branchA'', branchB = js ''branchB''\<rparr>"

definition mockedExecSync ::
  "jsstring \<Rightarrow> jsstring \<Rightarrow> jsstring \<Rightarrow> jsstring \<Rightarrow> jsstring \<Rightarrow> thrown + jsstring" where
  "mockedExecSync branches mergeBase diff command cwd =
     (if prefix (js ''git rev-parse'') command then Inr (js ''true'')
      else if prefix (js ''git branch --list'') command then Inr branches
      else if prefix (js ''git merge-base'') command then Inr mergeBase
      else if prefix (js ''git diff --name-status'') command then Inr diff
      else Inr [])"

definition mockedWorld ::
  "jsstring \<Rightarrow> jsstring \<Rightarrow> jsstring \<Rightarrow> (rejection + ResponseData) \<Rightarrow> World" where
  "mockedWorld branches mergeBase diff answer =
     \<lparr>execSync = mockedExecSync branches mergeBase diff,
      existsSync = (\<lambda>path. Inr True),
      axios_get = (\<lambda>url hs. answer)\<rparr>"

definition default_branches :: jsstring where
  "default_branches = js ''* branchA'' @ [NL] @ js ''  branchB''"

definition default_diff :: jsstring where
  "default_diff =
     js ''M'' @ [TAB] @ js ''src/file1.js'' @ [NL] @ js ''A'' @ [TAB] @ js ''src/file2.js''
       @ [NL] @ js ''D'' @ [TAB] @ js ''src/file3.js''"

definition default_answer :: "rejection + ResponseData" where
  "default_answer =
     Inr \<lparr>files = Some [change ''src/file1.js'' ''modified'', change ''src/file4.js'' ''added'']\<rparr>"

definition defaultWorld :: World where
  "defaultWorld =
     mockedWorld default_branches (js ''mergebasecommithash123'') default_diff default_answer"


section \<open>Properties of the conflict intersector\<close>

lemma findCommonChanges_common_paths:
  "findCommonChanges L R = common_paths (map filename L) R"
  by (induction R) (simp_all add: findCommonChanges_def)

lemma findCommonChanges_count:
  "count_list (findCommonChanges L R) p =
     (if p \<in> filename ` set L then count_list (map filename R) p else 0)"
  by (induction R) (auto simp: findCommonChanges_def Let_def)

text \<open>
  Claim C1. For all change lists \<open>L\<close> and \<open>R\<close>, \<^verbatim>\<open>findCommonChanges(L, R)\<close> is the list of
  the filenames of those entries of \<open>R\<close> whose filename is a filename of \<open>L\<close>, in the order
  of \<open>R\<close> (it is a subsequence of the filenames of \<open>R\<close>) and with every matching occurrence
  kept (a matching path occurs as often as in \<open>R\<close>); local paths file1.js, file2.js,
  file3.js against remote file1.js (modified), file4.js (added) give exactly file1.js, a
  remote path reported twice is returned twice, the order is the remote one, and disjoint
  lists give the empty list.
\<close>

theorem findCommonChanges_remote_order:
  "findCommonChanges L R = common_paths (map filename L) R
   \<and> subseq (findCommonChanges L R) (map filename R)
   \<and> set (findCommonChanges L R) = filename ` set L \<inter> filename ` set R
   \<and> (\<forall>p. count_list (findCommonChanges L R) p =
          (if p \<in> filename ` set L then count_list (map filename R) p else 0))
   \<and> findCommonChanges
        [change ''file1.js'' ''M'', change ''file2.js'' ''A'', change ''file3.js'' ''D'']
        [change ''file1.js'' ''modified'', change ''file4.js'' ''added'']
      = [js ''file1.js'']
   \<and> findCommonChanges
        [change ''a'' ''M'', change ''b'' ''M'']
        [change ''b'' ''renamed'', change ''a'' ''modified'', change ''b'' ''renamed'']
      = [js ''b'', js ''a'', js ''b'']
   \<and> (filename ` set L \<inter> filename ` set R = {} \<longrightarrow> findCommonChanges L R = [])"
proof -
  have sub: "subseq (findCommonChanges L R) (map filename R)"
    unfolding findCommonChanges_def Let_def by (intro subseq_map subseq_filter_left)
  have st: "set (findCommonChanges L R) = filename ` set L \<inter> filename ` set R"
    unfolding findCommonChanges_def Let_def by (induction R) auto
  have ex1: "findCommonChanges
        [change ''file1.js'' ''M'', change ''file2.js'' ''A'', change ''file3.js'' ''D'']
        [change ''file1.js'' ''modified'', change ''file4.js'' ''added'']
      = [js ''file1.js'']"
    by (simp add: findCommonChanges_def change_def js_def)
  have ex2: "findCommonChanges
        [change ''a'' ''M'', change ''b'' ''M'']
        [change ''b'' ''renamed'', change ''a'' ''modified'', change ''b'' ''renamed'']
      = [js ''b'', js ''a'', js ''b'']"
    by (simp add: findCommonChanges_def change_def js_def)
  have dis: "filename ` set L \<inter> filename ` set R = {} \<longrightarrow> findCommonChanges L R = []"
    using st by (metis set_empty)
  show ?thesis
    using sub st ex1 ex2 dis findCommonChanges_common_paths findCommonChanges_count
    by blast
qed

theorem findCommonChanges_remote_order_witness:
  "findCommonChanges [change ''x'' ''M''] [change ''y'' ''added''] = []"
proof -
  have "filename ` set [change ''x'' ''M''] \<inter> filename ` set [change ''y'' ''added''] = {}"
    by (simp add: change_def js_def)
  then show ?thesis
    using findCommonChanges_remote_order
      [of "[change ''x'' ''M'']" "[change ''y'' ''added'']"]
    by blast
qed

section \<open>Properties of strings\<close>

lemma split_ne: "split sep s \<noteq> []"
  by (induction s) auto

lemma split_step:
  "split sep (c # cs) =
     (if c = sep then [] # split sep cs
      else (case split sep cs of [] \<Rightarrow> [[c]] | l # ls \<Rightarrow> (c # l) # ls))"
  using split_ne[of sep cs] by (cases "split sep cs") auto

lemmas ev = js_def trim_def isWhiteSpace_def split_step

lemma split_snoc:
  "split sep (s @ [c]) =
     (if c = sep then split sep s @ [[]]
      else butlast (split sep s) @ [last (split sep s) @ [c]])"
proof (induction s)
  case Nil
  then show ?case by simp
next
  case (Cons a s)
  obtain l ls where eq: "split sep s = l # ls"
    using split_ne[of sep s] by (cases "split sep s") auto
  show ?case using Cons eq by (auto simp: split_ne)
qed

lemma blank_Nil: "blank []"
  by (simp add: blank_def)

lemma blank_Cons: "blank (c # s) \<longleftrightarrow> isWhiteSpace c \<and> blank s"
  by (simp add: blank_def)

lemma blank_snoc: "blank (s @ [c]) \<longleftrightarrow> isWhiteSpace c \<and> blank s"
  by (auto simp add: blank_def)

lemma trim_ws_cons: "isWhiteSpace c \<Longrightarrow> trim (c # s) = trim s"
  by (simp add: trim_def)

lemma trim_ws_snoc:
  assumes "isWhiteSpace c" "\<not> blank s"
  shows "trim (s @ [c]) = trim s"
proof -
  from assms(2) obtain x where "x \<in> set s" "\<not> isWhiteSpace x"
    by (auto simp: blank_def list_all_iff)
  then have "dropWhile isWhiteSpace (s @ [c]) = dropWhile isWhiteSpace s @ [c]"
    by (metis dropWhile_append1)
  then show ?thesis using assms(1) by (simp add: trim_def)
qed

section \<open>Properties of the diff parser\<close>

text \<open>
  Removing the whitespace around the whole text changes neither which lines are not
  blank nor what they are once trimmed.
\<close>

lemma ltrim_lines:
  "map trim (filter (\<lambda>line. \<not> blank line) (split NL (dropWhile isWhiteSpace s)))
     = map trim (filter (\<lambda>line. \<not> blank line) (split NL s))"
proof (induction s)
  case Nil
  then show ?case by simp
next
  case (Cons c s)
  obtain l ls where eq: "split NL s = l # ls"
    using split_ne[of NL s] by (cases "split NL s") auto
  show ?case
  proof (cases "isWhiteSpace c")
    case False
    then show ?thesis by simp
  next
    case ws: True
    show ?thesis
    proof (cases "c = NL")
      case True
      then show ?thesis using Cons.IH ws by (simp add: blank_Nil)
    next
      case False
      then show ?thesis using Cons.IH ws eq
        by (simp add: blank_Cons trim_ws_cons)
    qed
  qed
qed

lemma rtrim_lines:
  "map trim (filter (\<lambda>line. \<not> blank line) (split NL (rev (dropWhile isWhiteSpace (rev s)))))
     = map trim (filter (\<lambda>line. \<not> blank line) (split NL s))"
proof (induction s rule: rev_induct)
  case Nil
  then show ?case by simp
next
  case (snoc c s)
  have ne: "split NL s \<noteq> []" by (rule split_ne)
  show ?case
  proof (cases "isWhiteSpace c")
    case False
    then show ?thesis by simp
  next
    case ws: True
    show ?thesis
    proof (cases "c = NL")
      case True
      then show ?thesis using snoc.IH ws by (simp add: split_snoc blank_Nil)
    next
      case False
      have sp: "split NL (s @ [c]) = butlast (split NL s) @ [last (split NL s) @ [c]]"
        using False by (simp add: split_snoc)
      have "map trim (filter (\<lambda>line. \<not> blank line) (split NL (s @ [c])))
              = map trim (filter (\<lambda>line. \<not> blank line)
                           (butlast (split NL s) @ [last (split NL s)]))"
        unfolding sp using ws by (simp add: blank_snoc trim_ws_snoc)
      also have "\<dots> = map trim (filter (\<lambda>line. \<not> blank line) (split NL s))"
        using ne by simp
      finally show ?thesis using snoc.IH ws by simp
    qed
  qed
qed

lemma trim_lines:
  "map trim (filter (\<lambda>line. \<not> blank line) (split NL (trim s)))
     = map trim (filter (\<lambda>line. \<not> blank line) (split NL s))"
proof -
  have t: "trim s = rev (dropWhile isWhiteSpace (rev (dropWhile isWhiteSpace s)))"
    by (simp add: trim_def)
  from ltrim_lines[of s] rtrim_lines[of "dropWhile isWhiteSpace s"]
  show ?thesis unfolding t by simp
qed

lemma parseGitDiffOutput_lines:
  "parseGitDiffOutput s =
     map (\<lambda>l. \<lparr>filename = join TAB (tl (split TAB l)), status = hd (split TAB l)\<rparr>)
       (map trim (filter (\<lambda>line. line \<noteq> []) (split NL (trim s))))"
  by (simp add: parseGitDiffOutput_def Let_def comp_def)

lemma parse_spec_lines:
  "parse_spec s =
     map (\<lambda>l. \<lparr>filename = join TAB (tl (split TAB l)), status = hd (split TAB l)\<rparr>)
       (map trim (filter (\<lambda>line. \<not> blank line) (split NL (trim s))))"
  unfolding trim_lines by (simp add: parse_spec_def parse_line_def Let_def comp_def)

lemma filter_blank_less:
  assumes "l \<in> set ls" "l \<noteq> []" "blank l"
  shows "length (filter (\<lambda>line. \<not> blank line) ls) < length (filter (\<lambda>line. line \<noteq> []) ls)"
proof -
  have "filter (\<lambda>line. \<not> blank line) ls
          = filter (\<lambda>line. \<not> blank line) (filter (\<lambda>line. line \<noteq> []) ls)"
    by (auto simp: blank_Nil intro: filter_cong)
  moreover have "l \<in> set (filter (\<lambda>line. line \<noteq> []) ls)" using assms by simp
  ultimately show ?thesis using assms(3) by (metis length_filter_less)
qed

text \<open>
  \<^verbatim>\<open>parseGitDiffOutput\<close> follows the rule of the specification on exactly those outputs
  that, once the whitespace around them is removed, have no line of whitespace only
  between the entries.
\<close>

lemma parseGitDiffOutput_rule:
  "parseGitDiffOutput s = parse_spec s \<longleftrightarrow> no_inner_whitespace_line s"
proof
  assume h: "no_inner_whitespace_line s"
  then have "filter (\<lambda>line. line \<noteq> []) (split NL (trim s))
               = filter (\<lambda>line. \<not> blank line) (split NL (trim s))"
    unfolding no_inner_whitespace_line_def
    by (intro filter_cong) (auto simp: list_all_iff blank_Nil)
  then show "parseGitDiffOutput s = parse_spec s"
    by (simp add: parseGitDiffOutput_lines parse_spec_lines)
next
  assume e: "parseGitDiffOutput s = parse_spec s"
  show "no_inner_whitespace_line s"
  proof (rule ccontr)
    assume "\<not> no_inner_whitespace_line s"
    then obtain l where "l \<in> set (split NL (trim s))" "l \<noteq> []" "blank l"
      by (auto simp: no_inner_whitespace_line_def list_all_iff)
    then have "length (parse_spec s) < length (parseGitDiffOutput s)"
      using filter_blank_less by (simp add: parseGitDiffOutput_lines parse_spec_lines)
    then show False using e by simp
  qed
qed

text \<open>
  Claim C4, on the code. The diff output has a line of one space between two entries.
  \<^verbatim>\<open>parseGitDiffOutput\<close> does not drop this blank line: it filters the lines before it
  trims them, and returns for the line an entry with an empty kind and an empty path,
  three entries where the rule of the claim gives two. The line M, tab, src/file, tab,
  with, tab, tabs.js parses to the one entry of kind M and path src/file, tab, with, tab,
  tabs.js, and a blank first line and blank last lines are dropped.
\<close>

theorem parseGitDiffOutput_whitespace_line:
  "parseGitDiffOutput inner_space_diff =
     [\<lparr>filename = js ''a'', status = js ''M''\<rparr>, \<lparr>filename = [], status = []\<rparr>,
      \<lparr>filename = js ''b'', status = js ''A''\<rparr>]
   \<and> parse_spec inner_space_diff =
     [\<lparr>filename = js ''a'', status = js ''M''\<rparr>, \<lparr>filename = js ''b'', status = js ''A''\<rparr>]
   \<and> parseGitDiffOutput inner_space_diff \<noteq> parse_spec inner_space_diff
   \<and> parseGitDiffOutput tabs_line =
       [\<lparr>filename = js ''src/file'' @ [TAB] @ js ''with'' @ [TAB] @ js ''tabs.js'',
         status = js ''M''\<rparr>]
   \<and> parseGitDiffOutput leading_space_diff = [\<lparr>filename = js ''a'', status = js ''M''\<rparr>]
   \<and> parse_spec leading_space_diff = [\<lparr>filename = js ''a'', status = js ''M''\<rparr>]"
proof -
  have a: "parseGitDiffOutput inner_space_diff =
     [\<lparr>filename = js ''a'', status = js ''M''\<rparr>, \<lparr>filename = [], status = []\<rparr>,
      \<lparr>filename = js ''b'', status = js ''A''\<rparr>]"
    by (simp add: parseGitDiffOutput_def inner_space_diff_def ev del: split.simps(2))
  have b: "parse_spec inner_space_diff =
     [\<lparr>filename = js ''a'', status = js ''M''\<rparr>, \<lparr>filename = js ''b'', status = js ''A''\<rparr>]"
    by (simp add: parse_spec_def parse_line_def blank_def inner_space_diff_def ev
             del: split.simps(2))
  have c: "parseGitDiffOutput leading_space_diff = [\<lparr>filename = js ''a'', status = js ''M''\<rparr>]"
    by (simp add: parseGitDiffOutput_def leading_space_diff_def ev del: split.simps(2))
  have d: "parse_spec leading_space_diff = [\<lparr>filename = js ''a'', status = js ''M''\<rparr>]"
    by (simp add: parse_spec_def parse_line_def blank_def leading_space_diff_def ev
             del: split.simps(2))
  have t: "parseGitDiffOutput tabs_line =
       [\<lparr>filename = js ''src/file'' @ [TAB] @ js ''with'' @ [TAB] @ js ''tabs.js'',
         status = js ''M''\<rparr>]"
    by (simp add: parseGitDiffOutput_def tabs_line_def ev del: split.simps(2))
  show ?thesis unfolding a b c d t by simp
qed

section \<open>Properties of the detector\<close>

text \<open>The result and the calls of a sequence, of a handler and of each stage.\<close>

lemma execGitCommand_eq:
  "execGitCommand w c cmd =
     ([ExecSync (js ''git '' @ cmd) (localRepoPath c)],
      case execSync w (js ''git '' @ cmd) (localRepoPath c) of
        Inr out \<Rightarrow> Inr out
      | Inl (Error m) \<Rightarrow> Inl (Error (js ''Git command failed: git '' @ cmd @ js '' - '' @ m))
      | Inl (Value v) \<Rightarrow> Inl (Value v)
      | Inl (NoString e) \<Rightarrow> Inl (NoString e))"
  by (simp add: execGitCommand_def try_catch_def throw_def split: sum.splits thrown.splits)

lemmas monad = bind_def try_catch_def return_def throw_def

lemma first_missing_required:
  "first_missing (required_fields c) =
     (if owner c = [] then Some (js ''Owner is required'')
      else if repo c = [] then Some (js ''Repository name is required'')
      else if accessToken c = [] then Some (js ''Access token is required'')
      else if localRepoPath c = [] then Some (js ''Local repository path is required'')
      else if branchA c = [] then Some (js ''Branch A name is required'')
      else if branchB c = [] then Some (js ''Branch B name is required'')
      else None)"
  by (simp add: required_fields_def)

lemma first_missing_truthy:
  "first_missing (required_fields c) = Some m \<Longrightarrow> m \<noteq> []"
  by (auto simp: first_missing_required js_def split: if_splits)

lemma validateConfig_missing:
  "first_missing (required_fields c) = Some m \<Longrightarrow> validateConfig w c = ([], Inr (Some m))"
  by (auto simp: first_missing_required validateConfig_def return_def split: if_splits)

lemma validateConfig_present:
  "first_missing (required_fields c) = None \<Longrightarrow>
     validateConfig w c =
       ([ExistsSync (localRepoPath c)],
        case existsSync w (localRepoPath c) of
          Inl e \<Rightarrow> Inl e
        | Inr ex \<Rightarrow>
            Inr (if ex then None
                 else Some (js ''Local repository path does not exist: '' @ localRepoPath c)))"
  by (auto simp: first_missing_required validateConfig_def monad split: if_splits sum.splits)

lemma snd_bind:
  "snd (bind m f) = (case snd m of Inl e \<Rightarrow> Inl e | Inr x \<Rightarrow> snd (f x))"
  by (simp add: bind_def split: prod.splits sum.splits)

lemma fst_bind:
  "fst (bind m f) = fst m @ (case snd m of Inl e \<Rightarrow> [] | Inr x \<Rightarrow> fst (f x))"
  by (simp add: bind_def split: prod.splits sum.splits)

lemma snd_try_catch:
  "snd (try_catch m h) = (case snd m of Inl e \<Rightarrow> snd (h e) | Inr x \<Rightarrow> Inr x)"
  by (simp add: try_catch_def split: prod.splits sum.splits)

lemma fst_try_catch:
  "fst (try_catch m h) = fst m @ (case snd m of Inl e \<Rightarrow> fst (h e) | Inr x \<Rightarrow> [])"
  by (simp add: try_catch_def split: prod.splits sum.splits)

lemma proj_return: "fst (return x) = []" "snd (return x) = Inr x"
  by (simp_all add: return_def)

lemma proj_throw: "fst (throw e) = []" "snd (throw e) = Inl e"
  by (simp_all add: throw_def)

lemmas proj = snd_bind fst_bind snd_try_catch fst_try_catch proj_return proj_throw

lemma snd_findPotentialConflicts:
  "snd (findPotentialConflicts w c) =
     (case
        (case snd (validateConfig w c) of
           Inl e \<Rightarrow> Inl e
         | Inr v1 \<Rightarrow>
             if truthy v1 then
               Inr \<lparr>potentialConflicts = [], mergeBaseCommit = [], error = v1\<rparr>
             else
               (case snd (validateLocalRepository w c) of
                  Inl e \<Rightarrow> Inl e
                | Inr v2 \<Rightarrow>
                    if truthy v2 then
                      Inr \<lparr>potentialConflicts = [], mergeBaseCommit = [], error = v2\<rparr>
                    else
                      (case snd (findMergeBaseCommit w c) of
                         Inl e \<Rightarrow> Inl e
                       | Inr mb \<Rightarrow>
                           (case snd (getLocalChanges w c mb) of
                              Inl e \<Rightarrow> Inl e
                            | Inr lc \<Rightarrow>
                                (case snd (getRemoteChanges w c mb) of
                                   Inl e \<Rightarrow> Inl e
                                 | Inr rc \<Rightarrow>
                                     Inr \<lparr>potentialConflicts = findCommonChanges lc rc,
                                          mergeBaseCommit = mb, error = None\<rparr>)))))
      of
        Inl (Error m) \<Rightarrow> Inr \<lparr>potentialConflicts = [], mergeBaseCommit = [], error = Some m\<rparr>
      | Inl (Value v) \<Rightarrow> Inr \<lparr>potentialConflicts = [], mergeBaseCommit = [], error = Some v\<rparr>
      | Inl (NoString e) \<Rightarrow> Inl e
      | Inr r \<Rightarrow> Inr r)"
  by (simp add: findPotentialConflicts_def findPotentialConflicts_try_def proj
           split: sum.splits thrown.splits)

lemma fst_findPotentialConflicts:
  "fst (findPotentialConflicts w c) =
     fst (validateConfig w c) @
     (case snd (validateConfig w c) of
        Inl e \<Rightarrow> []
      | Inr v1 \<Rightarrow>
          if truthy v1 then []
          else
            fst (validateLocalRepository w c) @
            (case snd (validateLocalRepository w c) of
               Inl e \<Rightarrow> []
             | Inr v2 \<Rightarrow>
                 if truthy v2 then []
                 else
                   fst (findMergeBaseCommit w c) @
                   (case snd (findMergeBaseCommit w c) of
                      Inl e \<Rightarrow> []
                    | Inr mb \<Rightarrow>
                        fst (getLocalChanges w c mb) @
                        (case snd (getLocalChanges w c mb) of
                           Inl e \<Rightarrow> []
                         | Inr lc \<Rightarrow> fst (getRemoteChanges w c mb)))))"
  by (simp add: findPotentialConflicts_def findPotentialConflicts_try_def proj
           split: sum.splits thrown.splits)

text \<open>
  Claim C5. For every configuration with an empty field, \<^verbatim>\<open>validateConfig\<close>, and with it
  \<^verbatim>\<open>findPotentialConflicts\<close>, returns the fixed message of the first empty field in the
  order owner, repository name, access token, local path, branch A, branch B, without any
  call to the filesystem or to another collaborator; and when the six fields are
  non-empty and the local path does not exist, the error is exactly
  Local repository path does not exist: followed by the path.
\<close>

theorem validateConfig_first_failure:
  "(first_missing (required_fields c) = Some m \<longrightarrow>
      validateConfig w c = ([], Inr (Some m))
      \<and> findPotentialConflicts w c = ([], Inr \<lparr>potentialConflicts = [], mergeBaseCommit = [],
               error = Some m\<rparr>))
   \<and> (first_missing (required_fields c) = None \<and> existsSync w (localRepoPath c) = Inr False \<longrightarrow>
      snd (validateConfig w c)
        = Inr (Some (js ''Local repository path does not exist: '' @ localRepoPath c))
      \<and> snd (findPotentialConflicts w c)
        = Inr \<lparr>potentialConflicts = [], mergeBaseCommit = [],
               error = Some (js ''Local repository path does not exist: '' @ localRepoPath c)\<rparr>)
   \<and> (first_missing (required_fields c) = None \<longleftrightarrow>
        owner c \<noteq> [] \<and> repo c \<noteq> [] \<and> accessToken c \<noteq> [] \<and> localRepoPath c \<noteq> []
        \<and> branchA c \<noteq> [] \<and> branchB c \<noteq> [])"
proof (intro conjI impI)
  assume a: "first_missing (required_fields c) = Some m"
  show "validateConfig w c = ([], Inr (Some m))" by (rule validateConfig_missing[OF a])
  then show "findPotentialConflicts w c = ([], Inr \<lparr>potentialConflicts = [], mergeBaseCommit = [],
               error = Some m\<rparr>)"
    using first_missing_truthy[OF a]
    by (simp add: prod_eq_iff fst_findPotentialConflicts snd_findPotentialConflicts truthy_def)
next
  assume a: "first_missing (required_fields c) = None \<and> existsSync w (localRepoPath c) = Inr False"
  then have v: "validateConfig w c = ([ExistsSync (localRepoPath c)],
       Inr (Some (js ''Local repository path does not exist: '' @ localRepoPath c)))"
    by (simp add: validateConfig_present)
  then show "snd (validateConfig w c)
        = Inr (Some (js ''Local repository path does not exist: '' @ localRepoPath c))" by simp
  have "js ''Local repository path does not exist: '' @ localRepoPath c \<noteq> []"
    by (simp add: js_def)
  with v show "snd (findPotentialConflicts w c)
        = Inr \<lparr>potentialConflicts = [], mergeBaseCommit = [],
               error = Some (js ''Local repository path does not exist: '' @ localRepoPath c)\<rparr>"
    by (simp add: snd_findPotentialConflicts truthy_def)
next
  show "first_missing (required_fields c) = None \<longleftrightarrow>
        owner c \<noteq> [] \<and> repo c \<noteq> [] \<and> accessToken c \<noteq> [] \<and> localRepoPath c \<noteq> []
        \<and> branchA c \<noteq> [] \<and> branchB c \<noteq> []"
    by (simp add: first_missing_required)
qed


theorem validateConfig_first_failure_witness:
  "findPotentialConflicts defaultWorld (defaultConfig\<lparr>repo := [], branchB := []\<rparr>)
     = ([], Inr \<lparr>potentialConflicts = [], mergeBaseCommit = [],
               error = Some (js ''Repository name is required'')\<rparr>)
   \<and> snd (findPotentialConflicts (defaultWorld\<lparr>existsSync := (\<lambda>path. Inr False)\<rparr>) defaultConfig)
     = Inr \<lparr>potentialConflicts = [], mergeBaseCommit = [],
               error = Some (js ''Local repository path does not exist: /path/to/repo'')\<rparr>"
proof -
  have h1: "first_missing (required_fields (defaultConfig\<lparr>repo := [], branchB := []\<rparr>))
              = Some (js ''Repository name is required'')"
    by (simp add: first_missing_required defaultConfig_def js_def)
  have h2: "first_missing (required_fields defaultConfig) = None
            \<and> existsSync (defaultWorld\<lparr>existsSync := (\<lambda>path. Inr False)\<rparr>)
                 (localRepoPath defaultConfig) = Inr False"
    by (simp add: first_missing_required defaultConfig_def js_def)
  show ?thesis
    using h1 h2
      validateConfig_first_failure
        [of "defaultConfig\<lparr>repo := [], branchB := []\<rparr>" "js ''Repository name is required''"
            defaultWorld]
      validateConfig_first_failure
        [of defaultConfig "[]" "defaultWorld\<lparr>existsSync := (\<lambda>path. Inr False)\<rparr>"]
    by (simp add: defaultConfig_def js_def)
qed

lemma findMergeBaseCommit_eq:
  "findMergeBaseCommit w c =
     ([ExecSync (merge_base_command c) (localRepoPath c)],
      case execSync w (merge_base_command c) (localRepoPath c) of
        Inr out \<Rightarrow>
          if trim out = [] then
            Inl (Error (js ''Failed to find merge base: '' @ js ''Could not find merge base between ''
                        @ (js ''origin/'' @ branchA c) @ js '' and '' @ branchB c))
          else Inr (trim out)
      | Inl (Error m) \<Rightarrow>
          Inl (Error (js ''Failed to find merge base: '' @ js ''Git command failed: git ''
                      @ (js ''merge-base '' @ (js ''origin/'' @ branchA c) @ js '' '' @ branchB c)
                      @ js '' - '' @ m))
      | Inl (Value v) \<Rightarrow> Inl (Value v)
      | Inl (NoString e) \<Rightarrow> Inl (NoString e))"
proof -
  have cmd: "js ''git '' @ js ''merge-base '' @ js ''origin/'' @ branchA c @ js '' '' @ branchB c
               = merge_base_command c"
    by (simp add: merge_base_command_def js_def)
  show ?thesis
    by (cases "execSync w (merge_base_command c) (localRepoPath c)")
       (simp_all add: findMergeBaseCommit_def execGitCommand_eq cmd monad Let_def
                 split: thrown.splits)
qed

lemmas fixture = defaultWorld_def defaultConfig_def mockedWorld_def mockedExecSync_def
  default_branches_def default_diff_def default_answer_def change_def

lemmas stages = findPotentialConflicts_def findPotentialConflicts_try_def validateConfig_def validateLocalRepository_def
  findMergeBaseCommit_def getLocalChanges_def getRemoteChanges_def execGitCommand_eq monad
  truthy_def branch_names_def strip_marker_def parseGitDiffOutput_def findCommonChanges_def
  compare_url_def request_headers_def  merge_base_command_def

text \<open>
  Claim C6. When the output of the merge-base command is blank after trimming,
  \<^verbatim>\<open>findMergeBaseCommit\<close> throws (it substitutes no default ancestor), and, the two
  validations having passed, the error of the result of \<^verbatim>\<open>findPotentialConflicts\<close> is
  Failed to find merge base: Could not find merge base between origin/A and B, so that
  the error field of the result contains Failed to find merge base; when the output is not blank, the merge-base
  identifier returned is the output trimmed of the surrounding whitespace.
\<close>

theorem findMergeBaseCommit_blank:
  "(execSync w (merge_base_command c) (localRepoPath c) = Inr out \<and> trim out = [] \<longrightarrow>
      snd (findMergeBaseCommit w c)
        = Inl (Error (js ''Failed to find merge base''
                      @ js '': Could not find merge base between origin/''
                      @ branchA c @ js '' and '' @ branchB c))
      \<and> (snd (validateConfig w c) = Inr v1 \<and> \<not> truthy v1
          \<and> snd (validateLocalRepository w c) = Inr v2 \<and> \<not> truthy v2 \<longrightarrow>
           snd (findPotentialConflicts w c)
             = Inr \<lparr>potentialConflicts = [], mergeBaseCommit = [],
               error = Some (js ''Failed to find merge base''
                      @ js '': Could not find merge base between origin/''
                      @ branchA c @ js '' and '' @ branchB c)\<rparr>
           \<and> (\<exists>r message. snd (findPotentialConflicts w c) = Inr r
                 \<and> error r = Some message
                 \<and> sublist (js ''Failed to find merge base'') message)))
   \<and> (execSync w (merge_base_command c) (localRepoPath c) = Inr out \<and> trim out \<noteq> [] \<longrightarrow>
      snd (findMergeBaseCommit w c) = Inr (trim out))"
proof (intro conjI impI)
  assume a: "execSync w (merge_base_command c) (localRepoPath c) = Inr out \<and> trim out = []"
  then show m: "snd (findMergeBaseCommit w c)
        = Inl (Error (js ''Failed to find merge base''
                      @ js '': Could not find merge base between origin/''
                      @ branchA c @ js '' and '' @ branchB c))"
    by (simp add: findMergeBaseCommit_eq js_def)
  assume "snd (validateConfig w c) = Inr v1 \<and> \<not> truthy v1
          \<and> snd (validateLocalRepository w c) = Inr v2 \<and> \<not> truthy v2"
  then show "snd (findPotentialConflicts w c) =
      Inr \<lparr>potentialConflicts = [], mergeBaseCommit = [],
               error = Some (js ''Failed to find merge base''
                      @ js '': Could not find merge base between origin/''
                      @ branchA c @ js '' and '' @ branchB c)\<rparr>"
    using m by (simp add: snd_findPotentialConflicts)
  then have "snd (findPotentialConflicts w c) =
      Inr \<lparr>potentialConflicts = [], mergeBaseCommit = [],
               error = Some (js ''Failed to find merge base''
                      @ js '': Could not find merge base between origin/''
                      @ branchA c @ js '' and '' @ branchB c)\<rparr>
    \<and> error \<lparr>potentialConflicts = [], mergeBaseCommit = [],
               error = Some (js ''Failed to find merge base''
                      @ js '': Could not find merge base between origin/''
                      @ branchA c @ js '' and '' @ branchB c)\<rparr>
        = Some (js ''Failed to find merge base''
                      @ js '': Could not find merge base between origin/''
                      @ branchA c @ js '' and '' @ branchB c)
    \<and> sublist (js ''Failed to find merge base'')
          (js ''Failed to find merge base''
                      @ js '': Could not find merge base between origin/''
                      @ branchA c @ js '' and '' @ branchB c)"
    by (simp add: sublist_append_rightI)
  then show "\<exists>r message. snd (findPotentialConflicts w c) = Inr r
                 \<and> error r = Some message
                 \<and> sublist (js ''Failed to find merge base'') message"
    by blast
next
  assume "execSync w (merge_base_command c) (localRepoPath c) = Inr out \<and> trim out \<noteq> []"
  then show "snd (findMergeBaseCommit w c) = Inr (trim out)"
    by (simp add: findMergeBaseCommit_eq)
qed

theorem findMergeBaseCommit_blank_witness:
  "snd (findPotentialConflicts
          (mockedWorld default_branches (js '' '' @ [NL]) default_diff default_answer)
          defaultConfig)
     = Inr \<lparr>potentialConflicts = [], mergeBaseCommit = [],
               error = Some (js ''Failed to find merge base: Could not find merge base between origin/branchA and branchB'')\<rparr>
   \<and> snd (findMergeBaseCommit
            (mockedWorld default_branches ([NL] @ js ''  abc123 '' @ [NL]) default_diff
               default_answer)
            defaultConfig)
     = Inr (js ''abc123'')"
proof -
  let ?w = "mockedWorld default_branches (js '' '' @ [NL]) default_diff default_answer"
  let ?w' = "mockedWorld default_branches ([NL] @ js ''  abc123 '' @ [NL]) default_diff
               default_answer"
  have h1: "execSync ?w (merge_base_command defaultConfig) (localRepoPath defaultConfig)
              = Inr (js '' '' @ [NL]) \<and> trim (js '' '' @ [NL]) = []"
    by (simp add: fixture merge_base_command_def ev)
  have h2: "snd (validateConfig ?w defaultConfig) = Inr None \<and> \<not> truthy None
            \<and> snd (validateLocalRepository ?w defaultConfig) = Inr None \<and> \<not> truthy None"
    by (simp add: fixture stages ev del: split.simps(2))
  have h3: "execSync ?w' (merge_base_command defaultConfig) (localRepoPath defaultConfig)
              = Inr ([NL] @ js ''  abc123 '' @ [NL])
            \<and> trim ([NL] @ js ''  abc123 '' @ [NL]) \<noteq> []"
    by (simp add: fixture merge_base_command_def ev)
  have t: "trim ([NL] @ js ''  abc123 '' @ [NL]) = js ''abc123''"
    by (simp add: ev)
  show ?thesis
    using h1 h2 h3 t
      findMergeBaseCommit_blank[of ?w defaultConfig "js '' '' @ [NL]" None None]
      findMergeBaseCommit_blank[of ?w' defaultConfig "[NL] @ js ''  abc123 '' @ [NL]" None None]
    by (simp add: defaultConfig_def js_def)
qed

lemma branch_names_lines:
  "filter (\<lambda>branch. branch \<noteq> []) (map (\<lambda>branch. strip_marker (trim branch)) ls)
     = listed_branches ls"
  by (induction ls) (auto simp: strip_marker_def split: list.splits)

lemma validateLocalRepository_listed:
  assumes "execSync w (js ''git rev-parse --is-inside-work-tree'') (localRepoPath c) = Inr r"
    and "execSync w (js ''git branch --list'') (localRepoPath c) = Inr out"
  shows "validateLocalRepository w c =
     ([ExecSync (js ''git rev-parse --is-inside-work-tree'') (localRepoPath c),
       ExecSync (js ''git branch --list'') (localRepoPath c)],
      Inr (if branchB c \<in> set (branch_names out) then None
           else Some (js ''Branch '' @ [0x27] @ branchB c @ [0x27]
                        @ js '' does not exist locally'')))"
proof -
  have c1: "js ''git '' @ js ''rev-parse --is-inside-work-tree''
              = js ''git rev-parse --is-inside-work-tree''"
    and c2: "js ''git '' @ js ''branch --list'' = js ''git branch --list''"
    by (simp_all add: js_def)
  show ?thesis
    using assms by (simp add: validateLocalRepository_def execGitCommand_eq c1 c2 monad Let_def)
qed

text \<open>
  Claim C7. The branch names that \<^verbatim>\<open>validateLocalRepository\<close> reads from the output of the
  branch listing are those of the specification: the output is split into lines, each
  line trimmed, a leading asterisk and the whitespace after it stripped, and empty lines
  discarded. When both commands succeed, the validator returns no error if branch B is
  equal, code unit for code unit, to one of these names, and otherwise the error
  Branch 'B' does not exist locally, which is then the error of the result of
  \<^verbatim>\<open>findPotentialConflicts\<close>. The listing of the tests gives the names branchA and branchB,
  and BranchB is not among them.
\<close>

theorem validateLocalRepository_branch:
  "branch_names out = listed_branches (split NL out)
   \<and> (execSync w (js ''git rev-parse --is-inside-work-tree'') (localRepoPath c) = Inr r
      \<and> execSync w (js ''git branch --list'') (localRepoPath c) = Inr out \<longrightarrow>
        snd (validateLocalRepository w c)
          = Inr (if branchB c \<in> set (listed_branches (split NL out)) then None
                 else Some (js ''Branch '' @ [0x27] @ branchB c @ [0x27]
                              @ js '' does not exist locally''))
        \<and> (branchB c \<notin> set (listed_branches (split NL out))
            \<and> snd (validateConfig w c) = Inr v \<and> \<not> truthy v \<longrightarrow>
             snd (findPotentialConflicts w c)
               = Inr \<lparr>potentialConflicts = [], mergeBaseCommit = [],
               error = Some (js ''Branch '' @ [0x27] @ branchB c @ [0x27]
                                      @ js '' does not exist locally'')\<rparr>))
   \<and> branch_names default_branches = [js ''branchA'', js ''branchB'']
   \<and> js ''BranchB'' \<notin> set (branch_names default_branches)"
proof (intro conjI impI)
  show n: "branch_names out = listed_branches (split NL out)"
    by (simp add: branch_names_def branch_names_lines)
  show d: "branch_names default_branches = [js ''branchA'', js ''branchB'']"
    by (simp add: branch_names_def default_branches_def strip_marker_def ev del: split.simps(2))
  show "js ''BranchB'' \<notin> set (branch_names default_branches)"
    unfolding d by (simp add: js_def)
  assume a: "execSync w (js ''git rev-parse --is-inside-work-tree'') (localRepoPath c) = Inr r
      \<and> execSync w (js ''git branch --list'') (localRepoPath c) = Inr out"
  then have v: "validateLocalRepository w c =
     ([ExecSync (js ''git rev-parse --is-inside-work-tree'') (localRepoPath c),
       ExecSync (js ''git branch --list'') (localRepoPath c)],
      Inr (if branchB c \<in> set (branch_names out) then None
           else Some (js ''Branch '' @ [0x27] @ branchB c @ [0x27]
                        @ js '' does not exist locally'')))"
    using validateLocalRepository_listed by blast
  then show s: "snd (validateLocalRepository w c)
          = Inr (if branchB c \<in> set (listed_branches (split NL out)) then None
                 else Some (js ''Branch '' @ [0x27] @ branchB c @ [0x27]
                              @ js '' does not exist locally''))"
    by (simp add: n)
  assume "branchB c \<notin> set (listed_branches (split NL out))
            \<and> snd (validateConfig w c) = Inr v \<and> \<not> truthy v"
  then show "snd (findPotentialConflicts w c)
               = Inr \<lparr>potentialConflicts = [], mergeBaseCommit = [],
               error = Some (js ''Branch '' @ [0x27] @ branchB c @ [0x27]
                                      @ js '' does not exist locally'')\<rparr>"
    using s by (simp add: snd_findPotentialConflicts truthy_def js_def)
qed

theorem validateLocalRepository_branch_witness:
  "snd (findPotentialConflicts
          (mockedWorld (js ''* branchA'' @ [NL] @ js ''  some-non-existent-branch'')
             (js ''mergebasecommithash123'') default_diff default_answer)
          defaultConfig)
     = Inr \<lparr>potentialConflicts = [], mergeBaseCommit = [],
               error = Some (js ''Branch '' @ [0x27] @ js ''branchB'' @ [0x27]
                            @ js '' does not exist locally'')\<rparr>"
proof -
  let ?out = "js ''* branchA'' @ [NL] @ js ''  some-non-existent-branch''"
  let ?w = "mockedWorld ?out (js ''mergebasecommithash123'') default_diff default_answer"
  have h1: "execSync ?w (js ''git rev-parse --is-inside-work-tree'') (localRepoPath defaultConfig)
              = Inr (js ''true'')
            \<and> execSync ?w (js ''git branch --list'') (localRepoPath defaultConfig) = Inr ?out"
    by (simp add: fixture js_def)
  have h2: "branchB defaultConfig \<notin> set (listed_branches (split NL ?out))
            \<and> snd (validateConfig ?w defaultConfig) = Inr None \<and> \<not> truthy None"
    by (simp add: fixture stages ev del: split.simps(2))
  show ?thesis
    using h1 h2 validateLocalRepository_branch[of ?out ?w defaultConfig "js ''true''" None]
    by (simp add: defaultConfig_def)
qed

lemma decimal_404: "decimal 404 = js ''404''"
  by (simp add: decimal.simps js_def)

text \<open>
  Claim C8, on the code. The remote service rejects with an object that has a truthy
  \<^verbatim>\<open>isAxiosError\<close>, the message Network Error and no response, so no status code: the error
  that \<^verbatim>\<open>getRemoteChanges\<close> throws, and that the result carries, is
  GitHub API error (undefined): Network Error, in which Unknown does not occur, where the
  repository's test expects GitHub API error (Unknown): Network Error. With the status 404
  and the message Not Found the error is GitHub API error (404): Not Found.
\<close>

theorem getRemoteChanges_status_absent:
  "snd (getRemoteChanges
          (mockedWorld default_branches (js ''mergebasecommithash123'') default_diff
             (Inl (AxiosError None None (Some (js ''Network Error'')))))
          defaultConfig (js ''mergebasecommithash123''))
     = Inl (Error (js ''GitHub API error (undefined): Network Error''))
   \<and> snd (findPotentialConflicts
            (mockedWorld default_branches (js ''mergebasecommithash123'') default_diff
               (Inl (AxiosError None None (Some (js ''Network Error'')))))
            defaultConfig)
     = Inr \<lparr>potentialConflicts = [], mergeBaseCommit = [],
               error = Some (js ''GitHub API error (undefined): Network Error'')\<rparr>
   \<and> \<not> sublist (js ''Unknown'') (js ''GitHub API error (undefined): Network Error'')
   \<and> snd (findPotentialConflicts
            (mockedWorld default_branches (js ''mergebasecommithash123'') default_diff
               (Inl (AxiosError (Some 404) (Some (js ''Not Found'')) None)))
            defaultConfig)
     = Inr \<lparr>potentialConflicts = [], mergeBaseCommit = [],
               error = Some (js ''GitHub API error (404): Not Found'')\<rparr>"
proof (intro conjI)
  show "snd (getRemoteChanges
          (mockedWorld default_branches (js ''mergebasecommithash123'') default_diff
             (Inl (AxiosError None None (Some (js ''Network Error'')))))
          defaultConfig (js ''mergebasecommithash123''))
     = Inl (Error (js ''GitHub API error (undefined): Network Error''))"
    by (simp add: getRemoteChanges_def mockedWorld_def truthy_def js_def)
  show "snd (findPotentialConflicts
            (mockedWorld default_branches (js ''mergebasecommithash123'') default_diff
               (Inl (AxiosError None None (Some (js ''Network Error'')))))
            defaultConfig)
     = Inr \<lparr>potentialConflicts = [], mergeBaseCommit = [],
               error = Some (js ''GitHub API error (undefined): Network Error'')\<rparr>"
    by (simp add: fixture stages ev del: split.simps(2))
  show "\<not> sublist (js ''Unknown'') (js ''GitHub API error (undefined): Network Error'')"
    by code_simp
  show "snd (findPotentialConflicts
            (mockedWorld default_branches (js ''mergebasecommithash123'') default_diff
               (Inl (AxiosError (Some 404) (Some (js ''Not Found'')) None)))
            defaultConfig)
     = Inr \<lparr>potentialConflicts = [], mergeBaseCommit = [],
               error = Some (js ''GitHub API error (404): Not Found'')\<rparr>"
    by (simp add: fixture stages decimal_404 ev del: split.simps(2))
qed

lemma FileChange_rebuild:
  "map (\<lambda>file. \<lparr>filename = filename file, status = status file\<rparr>) fs = (fs::FileChange list)"
  by (induction fs) simp_all

lemma getRemoteChanges_response:
  "axios_get w (compare_url c mb) (request_headers c) = Inr resp \<Longrightarrow>
     getRemoteChanges w c mb =
       ([remote_call c mb], Inr (case files resp of None \<Rightarrow> [] | Some fs \<Rightarrow> fs))"
  by (simp add: getRemoteChanges_def remote_call_def Let_def FileChange_rebuild split: option.splits)

text \<open>
  Claim C9. When the comparison request succeeds, \<^verbatim>\<open>getRemoteChanges\<close> returns the entries
  of the files array of the body, each with the filename and the status reported, and no
  entry when the body has no files array; in that case, the validations, the merge-base
  resolution and the local collection having succeeded, the result of
  \<^verbatim>\<open>findPotentialConflicts\<close> has no potential conflict, the merge base found, and no error.
\<close>

theorem getRemoteChanges_files:
  "(axios_get w (compare_url c mb) (request_headers c) = Inr resp \<longrightarrow>
      snd (getRemoteChanges w c mb) = Inr (case files resp of None \<Rightarrow> [] | Some fs \<Rightarrow> fs))
   \<and> (axios_get w (compare_url c mb) (request_headers c) = Inr resp \<and> files resp = None
       \<and> snd (validateConfig w c) = Inr v1 \<and> \<not> truthy v1
       \<and> snd (validateLocalRepository w c) = Inr v2 \<and> \<not> truthy v2
       \<and> snd (findMergeBaseCommit w c) = Inr mb
       \<and> snd (getLocalChanges w c mb) = Inr lc \<longrightarrow>
      snd (findPotentialConflicts w c)
        = Inr \<lparr>potentialConflicts = [], mergeBaseCommit = mb, error = None\<rparr>)"
  by (auto simp: getRemoteChanges_response snd_findPotentialConflicts findCommonChanges_def)

theorem getRemoteChanges_files_witness:
  "snd (findPotentialConflicts
          (mockedWorld default_branches (js ''mergebasecommithash123'') default_diff
             (Inr \<lparr>files = None\<rparr>))
          defaultConfig)
     = Inr \<lparr>potentialConflicts = [], mergeBaseCommit = js ''mergebasecommithash123'',
            error = None\<rparr>
   \<and> snd (getRemoteChanges defaultWorld defaultConfig (js ''mergebasecommithash123''))
     = Inr [change ''src/file1.js'' ''modified'', change ''src/file4.js'' ''added'']"
proof -
  let ?w = "mockedWorld default_branches (js ''mergebasecommithash123'') default_diff
             (Inr \<lparr>files = None\<rparr>)"
  let ?mb = "js ''mergebasecommithash123''"
  have h1: "axios_get ?w (compare_url defaultConfig ?mb) (request_headers defaultConfig)
              = Inr \<lparr>files = None\<rparr> \<and> files \<lparr>files = None\<rparr> = None"
    by (simp add: mockedWorld_def)
  have h2: "snd (validateConfig ?w defaultConfig) = Inr None \<and> \<not> truthy None
            \<and> snd (validateLocalRepository ?w defaultConfig) = Inr None \<and> \<not> truthy None"
    by (simp add: fixture stages ev del: split.simps(2))
  have h3: "snd (findMergeBaseCommit ?w defaultConfig) = Inr ?mb"
    by (simp add: fixture stages ev del: split.simps(2))
  have h4: "snd (getLocalChanges ?w defaultConfig ?mb) = Inr (parseGitDiffOutput default_diff)"
    by (simp add: fixture getLocalChanges_def execGitCommand_eq monad js_def)
  have h5: "axios_get defaultWorld (compare_url defaultConfig ?mb) (request_headers defaultConfig)
              = Inr \<lparr>files = Some [change ''src/file1.js'' ''modified'',
                                    change ''src/file4.js'' ''added'']\<rparr>"
    by (simp add: defaultWorld_def mockedWorld_def default_answer_def)
  show ?thesis
    using h1 h2 h3 h4 h5
      getRemoteChanges_files[of ?w defaultConfig ?mb "\<lparr>files = None\<rparr>" None None
                                "parseGitDiffOutput default_diff"]
      getRemoteChanges_files[of defaultWorld defaultConfig ?mb
                                "\<lparr>files = Some [change ''src/file1.js'' ''modified'',
                                    change ''src/file4.js'' ''added'']\<rparr>"]
    by simp
qed

lemma trim_ends:
  assumes "trim s \<noteq> []"
  shows "\<not> isWhiteSpace (hd (trim s)) \<and> \<not> isWhiteSpace (last (trim s))"
proof -
  let ?t = "dropWhile isWhiteSpace s"
  let ?u = "dropWhile isWhiteSpace (rev ?t)"
  have tr: "trim s = rev ?u" by (simp add: trim_def)
  from assms have u: "?u \<noteq> []" by (simp add: tr)
  have t: "?t \<noteq> []"
  proof
    assume "?t = []"
    then have "?u = []" by (simp only: rev.simps(1) dropWhile.simps(1))
    with u show False by simp
  qed
  from u have l: "\<not> isWhiteSpace (hd ?u)" by (rule hd_dropWhile)
  have "rev ?t = takeWhile isWhiteSpace (rev ?t) @ ?u" by simp
  then have "last (rev ?t) = last ?u" using u by (metis last_appendR)
  then have "last ?u = hd ?t" using t by (simp add: last_rev)
  moreover have "\<not> isWhiteSpace (hd ?t)" using t by (rule hd_dropWhile)
  ultimately have h: "\<not> isWhiteSpace (last ?u)" by simp
  show ?thesis using l h u by (simp add: tr hd_rev last_rev)
qed

lemma findMergeBaseCommit_Inr:
  assumes "snd (findMergeBaseCommit w c) = Inr mb"
  shows "\<exists>out. execSync w (merge_base_command c) (localRepoPath c) = Inr out
           \<and> mb = trim out \<and> trim out \<noteq> []"
  using assms
  by (cases "execSync w (merge_base_command c) (localRepoPath c)")
     (auto simp: findMergeBaseCommit_eq split: thrown.splits if_splits)

lemma findMergeBaseCommit_trimmed:
  assumes "snd (findMergeBaseCommit w c) = Inr mb"
  shows "mb \<noteq> [] \<and> \<not> isWhiteSpace (hd mb) \<and> \<not> isWhiteSpace (last mb)"
proof -
  from findMergeBaseCommit_Inr[OF assms] obtain out where "mb = trim out" "trim out \<noteq> []"
    by blast
  then show ?thesis using trim_ends by simp
qed

lemma truthy_Some: "truthy v \<Longrightarrow> \<exists>m. v = Some m"
  by (cases v) (simp_all add: truthy_def)

text \<open>
  When the collaborators throw printable values only, so does every stage.
\<close>

lemma execGitCommand_printable:
  assumes "\<And>command cwd e. execSync w command cwd = Inl e \<Longrightarrow> printable e"
    and "snd (execGitCommand w c cmd) = Inl e"
  shows "printable e"
  using assms(2) assms(1)[of "js ''git '' @ cmd" "localRepoPath c"]
  by (cases "execSync w (js ''git '' @ cmd) (localRepoPath c)")
     (auto simp: execGitCommand_eq split: thrown.splits)

lemma validateConfig_printable:
  assumes "\<And>path e. existsSync w path = Inl e \<Longrightarrow> printable e"
    and "snd (validateConfig w c) = Inl e"
  shows "printable e"
  using assms(2) assms(1)[of "localRepoPath c"]
  by (auto simp: validateConfig_def proj split: if_splits sum.splits)

lemma validateLocalRepository_printable:
  assumes "\<And>command cwd e. execSync w command cwd = Inl e \<Longrightarrow> printable e"
    and "snd (validateLocalRepository w c) = Inl e"
  shows "printable e"
  using assms(2) execGitCommand_printable[OF assms(1)]
  by (fastforce simp: validateLocalRepository_def proj Let_def
                split: sum.splits thrown.splits if_splits)

lemma findMergeBaseCommit_printable:
  assumes "\<And>command cwd e. execSync w command cwd = Inl e \<Longrightarrow> printable e"
    and "snd (findMergeBaseCommit w c) = Inl e"
  shows "printable e"
  using assms(2) assms(1)[of "merge_base_command c" "localRepoPath c"]
  by (cases "execSync w (merge_base_command c) (localRepoPath c)")
     (auto simp: findMergeBaseCommit_eq split: thrown.splits if_splits)

lemma getLocalChanges_printable:
  assumes "\<And>command cwd e. execSync w command cwd = Inl e \<Longrightarrow> printable e"
    and "snd (getLocalChanges w c mb) = Inl e"
  shows "printable e"
  using assms(2) execGitCommand_printable[OF assms(1)]
  by (fastforce simp: getLocalChanges_def proj split: sum.splits thrown.splits)

lemma getRemoteChanges_printable:
  assumes "\<And>url hs e. axios_get w url hs = Inl (Rejected e) \<Longrightarrow> printable e"
    and "snd (getRemoteChanges w c mb) = Inl e"
  shows "printable e"
  using assms(2) assms(1)[of "compare_url c mb" "request_headers c"]
  by (auto simp: getRemoteChanges_def Let_def split: sum.splits rejection.splits thrown.splits)

lemma findPotentialConflicts_resolves:
  assumes ex: "\<And>command cwd e. execSync w command cwd = Inl e \<Longrightarrow> printable e"
    and fs: "\<And>path e. existsSync w path = Inl e \<Longrightarrow> printable e"
    and ax: "\<And>url hs e. axios_get w url hs = Inl (Rejected e) \<Longrightarrow> printable e"
  shows "\<exists>r. snd (findPotentialConflicts w c) = Inr r"
proof (cases "snd (findPotentialConflicts w c)")
  case (Inr r)
  then show ?thesis by simp
next
  case (Inl e)
  then have "snd (validateConfig w c) = Inl (NoString e)
         \<or> snd (validateLocalRepository w c) = Inl (NoString e)
         \<or> snd (findMergeBaseCommit w c) = Inl (NoString e)
         \<or> (\<exists>mb. snd (getLocalChanges w c mb) = Inl (NoString e))
         \<or> (\<exists>mb. snd (getRemoteChanges w c mb) = Inl (NoString e))"
    by (auto simp: snd_findPotentialConflicts split: sum.splits thrown.splits if_splits)
  moreover have "\<not> printable (NoString e)" by simp
  moreover have "printable x" if "snd (validateConfig w c) = Inl x" for x
    using fs that by (rule validateConfig_printable[where w = w])
  moreover have "printable x" if "snd (validateLocalRepository w c) = Inl x" for x
    using ex that by (rule validateLocalRepository_printable[where w = w])
  moreover have "printable x" if "snd (findMergeBaseCommit w c) = Inl x" for x
    using ex that by (rule findMergeBaseCommit_printable[where w = w])
  moreover have "printable x" if "snd (getLocalChanges w c mb) = Inl x" for x mb
    using ex that by (rule getLocalChanges_printable[where w = w])
  moreover have "printable x" if "snd (getRemoteChanges w c mb) = Inl x" for x mb
    using ax that by (rule getRemoteChanges_printable[where w = w])
  ultimately show ?thesis by blast
qed





text \<open>
  Claim C10. Every result of \<^verbatim>\<open>findPotentialConflicts\<close> either has an error, the empty
  merge base and no potential conflict, or has no error and a merge base that is not
  empty and neither begins nor ends with whitespace; and there is such a result whenever
  the collaborators throw only instances of \<^verbatim>\<open>Error\<close> and values that \<^verbatim>\<open>String\<close> converts.
\<close>

theorem findPotentialConflicts_result_shape:
  "(snd (findPotentialConflicts w c) = Inr r \<longrightarrow>
      (error r \<noteq> None \<and> mergeBaseCommit r = [] \<and> potentialConflicts r = [])
      \<or> (error r = None \<and> mergeBaseCommit r \<noteq> []
          \<and> \<not> isWhiteSpace (hd (mergeBaseCommit r))
          \<and> \<not> isWhiteSpace (last (mergeBaseCommit r))))
   \<and> ((\<forall>command cwd e. execSync w command cwd = Inl e \<longrightarrow> printable e)
       \<and> (\<forall>path e. existsSync w path = Inl e \<longrightarrow> printable e)
       \<and> (\<forall>url hs e. axios_get w url hs = Inl (Rejected e) \<longrightarrow> printable e) \<longrightarrow>
        (\<exists>r'. snd (findPotentialConflicts w c) = Inr r'
           \<and> ((error r' \<noteq> None \<and> mergeBaseCommit r' = [] \<and> potentialConflicts r' = [])
               \<or> (error r' = None \<and> mergeBaseCommit r' \<noteq> []
                   \<and> \<not> isWhiteSpace (hd (mergeBaseCommit r'))
                   \<and> \<not> isWhiteSpace (last (mergeBaseCommit r'))))))"
proof -
  have shape: "(error x \<noteq> None \<and> mergeBaseCommit x = [] \<and> potentialConflicts x = [])
      \<or> (error x = None \<and> mergeBaseCommit x \<noteq> []
          \<and> \<not> isWhiteSpace (hd (mergeBaseCommit x))
          \<and> \<not> isWhiteSpace (last (mergeBaseCommit x)))"
    if "snd (findPotentialConflicts w c) = Inr x" for x
    using that
    by (auto simp: snd_findPotentialConflicts split: sum.splits thrown.splits if_splits
             dest: truthy_Some findMergeBaseCommit_trimmed)
  show ?thesis
  proof (intro conjI impI)
    assume "snd (findPotentialConflicts w c) = Inr r"
    then show "(error r \<noteq> None \<and> mergeBaseCommit r = [] \<and> potentialConflicts r = [])
      \<or> (error r = None \<and> mergeBaseCommit r \<noteq> []
          \<and> \<not> isWhiteSpace (hd (mergeBaseCommit r))
          \<and> \<not> isWhiteSpace (last (mergeBaseCommit r)))"
      by (rule shape)
  next
    assume "(\<forall>command cwd e. execSync w command cwd = Inl e \<longrightarrow> printable e)
       \<and> (\<forall>path e. existsSync w path = Inl e \<longrightarrow> printable e)
       \<and> (\<forall>url hs e. axios_get w url hs = Inl (Rejected e) \<longrightarrow> printable e)"
    then have "\<exists>x. snd (findPotentialConflicts w c) = Inr x"
      by (intro findPotentialConflicts_resolves) blast+
    then show "\<exists>r'. snd (findPotentialConflicts w c) = Inr r'
           \<and> ((error r' \<noteq> None \<and> mergeBaseCommit r' = [] \<and> potentialConflicts r' = [])
               \<or> (error r' = None \<and> mergeBaseCommit r' \<noteq> []
                   \<and> \<not> isWhiteSpace (hd (mergeBaseCommit r'))
                   \<and> \<not> isWhiteSpace (last (mergeBaseCommit r'))))"
      using shape by blast
  qed
qed

theorem findPotentialConflicts_result_shape_witness:
  "snd (findPotentialConflicts defaultWorld defaultConfig)
     = Inr \<lparr>potentialConflicts = [js ''src/file1.js''],
            mergeBaseCommit = js ''mergebasecommithash123'', error = None\<rparr>
   \<and> \<not> isWhiteSpace (hd (js ''mergebasecommithash123''))
   \<and> \<not> isWhiteSpace (last (js ''mergebasecommithash123''))"
proof -
  let ?r = "\<lparr>potentialConflicts = [js ''src/file1.js''],
            mergeBaseCommit = js ''mergebasecommithash123'', error = None\<rparr>"
  have v: "snd (findPotentialConflicts defaultWorld defaultConfig) = Inr ?r"
    by (simp add: fixture stages ev del: split.simps(2))
  have h0: "(\<forall>command cwd e. execSync defaultWorld command cwd = Inl e \<longrightarrow> printable e)
     \<and> (\<forall>path e. existsSync defaultWorld path = Inl e \<longrightarrow> printable e)
     \<and> (\<forall>url hs e. axios_get defaultWorld url hs = Inl (Rejected e) \<longrightarrow> printable e)"
    by (auto simp: fixture split: if_splits)
  show ?thesis
    using v h0 findPotentialConflicts_result_shape[of defaultWorld defaultConfig ?r] by auto
qed

lemma collector_calls_append:
  "collector_calls (a @ b) = collector_calls a @ collector_calls b"
  by (simp add: collector_calls_def)

lemma validateConfig_no_collector:
  "collector_calls (fst (validateConfig w c)) = []"
  by (simp add: validateConfig_def collector_calls_def proj split: sum.splits)

lemma validateLocalRepository_no_collector:
  "collector_calls (fst (validateLocalRepository w c)) = []"
  by (simp add: validateLocalRepository_def execGitCommand_eq collector_calls_def proj js_def
                Let_def
           split: sum.splits thrown.splits)

lemma findMergeBaseCommit_no_collector:
  "collector_calls (fst (findMergeBaseCommit w c)) = []"
  by (simp add: findMergeBaseCommit_eq collector_calls_def merge_base_command_def js_def)

lemma getLocalChanges_call:
  "fst (getLocalChanges w c mb) = [local_call c mb]"
  by (simp add: getLocalChanges_def execGitCommand_eq local_call_def proj js_def
           split: sum.splits thrown.splits)

lemma getRemoteChanges_call:
  "fst (getRemoteChanges w c mb) = [remote_call c mb]"
  by (simp add: getRemoteChanges_def remote_call_def Let_def)

lemma collector_calls_collectors:
  "collector_calls [] = []"
  "collector_calls (local_call c mb # t) = local_call c mb # collector_calls t"
  "collector_calls (remote_call c mb # t) = remote_call c mb # collector_calls t"
  by (simp_all add: collector_calls_def local_call_def remote_call_def js_def)

lemma collector_calls_run:
  "collector_calls (fst (findPotentialConflicts w c)) =
     (case snd (validateConfig w c) of
        Inl e \<Rightarrow> []
      | Inr v1 \<Rightarrow>
          if truthy v1 then []
          else
            (case snd (validateLocalRepository w c) of
               Inl e \<Rightarrow> []
             | Inr v2 \<Rightarrow>
                 if truthy v2 then []
                 else
                   (case snd (findMergeBaseCommit w c) of
                      Inl e \<Rightarrow> []
                    | Inr mb \<Rightarrow>
                        (case snd (getLocalChanges w c mb) of
                           Inl e \<Rightarrow> [local_call c mb]
                         | Inr lc \<Rightarrow> [local_call c mb, remote_call c mb]))))"
  by (simp add: fst_findPotentialConflicts collector_calls_append validateConfig_no_collector
                validateLocalRepository_no_collector findMergeBaseCommit_no_collector
                getLocalChanges_call getRemoteChanges_call collector_calls_collectors
           split: sum.splits)

text \<open>
  Claim C3. Among the calls of a run of \<^verbatim>\<open>findPotentialConflicts\<close>, those of the
  collectors are none, or the diff command of the local collector, or that command and
  then the request of the remote collector, both for the merge base that
  \<^verbatim>\<open>findMergeBaseCommit\<close> returned, which is the trimmed, non-blank output of the
  merge-base command. When the resolution does not return, and so when the output of the
  merge-base command is blank, no collector is called. In a result without error the
  merge base is the one resolved, and both collectors were called with it.
\<close>

theorem collectors_same_merge_base:
  "(collector_calls (fst (findPotentialConflicts w c)) = []
    \<or> (\<exists>out. execSync w (merge_base_command c) (localRepoPath c) = Inr out
          \<and> trim out \<noteq> []
          \<and> snd (findMergeBaseCommit w c) = Inr (trim out)
          \<and> (collector_calls (fst (findPotentialConflicts w c)) = [local_call c (trim out)]
              \<or> collector_calls (fst (findPotentialConflicts w c))
                  = [local_call c (trim out), remote_call c (trim out)])))
   \<and> ((\<forall>mb. snd (findMergeBaseCommit w c) \<noteq> Inr mb) \<longrightarrow>
        collector_calls (fst (findPotentialConflicts w c)) = [])
   \<and> (execSync w (merge_base_command c) (localRepoPath c) = Inr blank_out
       \<and> trim blank_out = [] \<longrightarrow>
        collector_calls (fst (findPotentialConflicts w c)) = [])
   \<and> (snd (findPotentialConflicts w c) = Inr r \<and> error r = None \<longrightarrow>
        snd (findMergeBaseCommit w c) = Inr (mergeBaseCommit r)
        \<and> collector_calls (fst (findPotentialConflicts w c))
            = [local_call c (mergeBaseCommit r), remote_call c (mergeBaseCommit r)])"
proof (intro conjI impI)
  show "collector_calls (fst (findPotentialConflicts w c)) = []
    \<or> (\<exists>out. execSync w (merge_base_command c) (localRepoPath c) = Inr out
          \<and> trim out \<noteq> []
          \<and> snd (findMergeBaseCommit w c) = Inr (trim out)
          \<and> (collector_calls (fst (findPotentialConflicts w c)) = [local_call c (trim out)]
              \<or> collector_calls (fst (findPotentialConflicts w c))
                  = [local_call c (trim out), remote_call c (trim out)]))"
  proof (cases "snd (findMergeBaseCommit w c)")
    case (Inl e)
    then show ?thesis by (simp add: collector_calls_run split: sum.splits)
  next
    case (Inr mb)
    from findMergeBaseCommit_Inr[OF Inr] obtain out where
      o: "execSync w (merge_base_command c) (localRepoPath c) = Inr out"
         "mb = trim out" "trim out \<noteq> []"
      by blast
    have "collector_calls (fst (findPotentialConflicts w c)) = []
          \<or> collector_calls (fst (findPotentialConflicts w c)) = [local_call c mb]
          \<or> collector_calls (fst (findPotentialConflicts w c))
               = [local_call c mb, remote_call c mb]"
      using Inr by (simp add: collector_calls_run split: sum.splits)
    then show ?thesis using o Inr by auto
  qed
next
  assume "\<forall>mb. snd (findMergeBaseCommit w c) \<noteq> Inr mb"
  then show "collector_calls (fst (findPotentialConflicts w c)) = []"
    by (simp add: collector_calls_run split: sum.splits)
next
  assume "execSync w (merge_base_command c) (localRepoPath c) = Inr blank_out
       \<and> trim blank_out = []"
  then have "\<exists>e. snd (findMergeBaseCommit w c) = Inl e"
    by (simp add: findMergeBaseCommit_eq)
  then show "collector_calls (fst (findPotentialConflicts w c)) = []"
    by (auto simp: collector_calls_run split: sum.splits)
next
  assume a: "snd (findPotentialConflicts w c) = Inr r \<and> error r = None"
  then show "snd (findMergeBaseCommit w c) = Inr (mergeBaseCommit r)"
    by (auto simp: snd_findPotentialConflicts split: sum.splits thrown.splits if_splits
             dest: truthy_Some)
  from a show "collector_calls (fst (findPotentialConflicts w c))
            = [local_call c (mergeBaseCommit r), remote_call c (mergeBaseCommit r)]"
    by (auto simp: snd_findPotentialConflicts collector_calls_run
             split: sum.splits thrown.splits if_splits dest: truthy_Some)
qed

theorem collectors_same_merge_base_witness:
  "collector_calls (fst (findPotentialConflicts defaultWorld defaultConfig))
     = [ExecSync (js ''git diff --name-status mergebasecommithash123 branchB'')
          (js ''/path/to/repo''),
        AxiosGet
          (js ''https://api.github.com/repos/test-owner/test-repo/compare/mergebasecommithash123...branchA'')
          [(js ''Authorization'', js ''Bearer test-token''),
           (js ''Accept'', js ''application/vnd.github.v3+json'')]]
   \<and> collector_calls
        (fst (findPotentialConflicts
                (mockedWorld default_branches (js '' '' @ [NL]) default_diff default_answer)
                defaultConfig))
     = []"
proof -
  let ?r = "\<lparr>potentialConflicts = [js ''src/file1.js''],
            mergeBaseCommit = js ''mergebasecommithash123'', error = None\<rparr>"
  let ?w = "mockedWorld default_branches (js '' '' @ [NL]) default_diff default_answer"
  have h1: "snd (findPotentialConflicts defaultWorld defaultConfig) = Inr ?r \<and> error ?r = None"
    by (simp add: fixture stages ev del: split.simps(2))
  have h2: "execSync ?w (merge_base_command defaultConfig) (localRepoPath defaultConfig)
              = Inr (js '' '' @ [NL]) \<and> trim (js '' '' @ [NL]) = []"
    by (simp add: fixture merge_base_command_def ev)
  show ?thesis
    using h1 h2
      collectors_same_merge_base[of defaultWorld defaultConfig _ ?r]
      collectors_same_merge_base[of ?w defaultConfig "js '' '' @ [NL]"]
    by (simp add: local_call_def remote_call_def compare_url_def request_headers_def
                  defaultConfig_def js_def)
qed

end
